theory Spec2Isabelle
  imports Main
begin

section \<open>JSON values and HTTP messages\<close>

text \<open>
  The account service (\<^verbatim>\<open>service/routes.py\<close>) is a set of Flask handlers over an
  \<^verbatim>\<open>Account\<close> table. A handler reads the request (its \<^verbatim>\<open>Content-Type\<close> header and
  its JSON body), reads or changes the table, and returns a response. The table is threaded
  through the handlers explicitly: a handler that mutates it returns the new table.

  A JSON document as Python's \<^verbatim>\<open>json\<close> module decodes it. An object is the list of
  its members, looked up with \<open>map_of\<close>. Numbers with a fractional part are left out: the
  service never inspects a number.
\<close>

datatype json =
    JNull
  | JBool bool
  | JInt int
  | JStr string
  | JArr "json list"
  | JObj "(string \<times> json) list"

text \<open>
  The payload of a response: \<^verbatim>\<open>make_response("Not Found", ...)\<close> sends text,
  \<^verbatim>\<open>jsonify(...)\<close> sends a JSON document.
\<close>

datatype payload = Text string | Json json

record response =
  status_code :: nat
  data :: payload
  headers :: "(string \<times> string) list"

text \<open>
  What a handler reads of \<^verbatim>\<open>flask.request\<close>: the \<^verbatim>\<open>Content-Type\<close> header
  (\<open>None\<close> when the request has none) and the body as decoded by
  \<^verbatim>\<open>request.get_json()\<close> (\<open>None\<close> when the body is not a JSON document).
\<close>

record request =
  content_type :: "string option"
  json_body :: "json option"

text \<open>
  The two ways a handler leaves by an exception: \<^verbatim>\<open>abort(code, description)\<close>, and
  the \<^verbatim>\<open>DataValidationError\<close> of the model layer.
\<close>

datatype error =
    HTTPException nat string
  | DataValidationError string

subsection \<open>Status codes\<close>

text \<open>
  Modelled from the spec: \<^verbatim>\<open>service/common/status.py\<close> is not among the sources; the
  constants carry the codes their names and the spec give them.
\<close>

definition HTTP_200_OK :: nat where
  "HTTP_200_OK = 200"

definition HTTP_201_CREATED :: nat where
  "HTTP_201_CREATED = 201"

definition HTTP_204_NO_CONTENT :: nat where
  "HTTP_204_NO_CONTENT = 204"

definition HTTP_400_BAD_REQUEST :: nat where
  "HTTP_400_BAD_REQUEST = 400"

definition HTTP_404_NOT_FOUND :: nat where
  "HTTP_404_NOT_FOUND = 404"

definition HTTP_415_UNSUPPORTED_MEDIA_TYPE :: nat where
  "HTTP_415_UNSUPPORTED_MEDIA_TYPE = 415"

lemmas status_defs =
  HTTP_200_OK_def HTTP_201_CREATED_def HTTP_204_NO_CONTENT_def
  HTTP_400_BAD_REQUEST_def HTTP_404_NOT_FOUND_def HTTP_415_UNSUPPORTED_MEDIA_TYPE_def

subsection \<open>Flask primitives\<close>

text \<open>
  \<^verbatim>\<open>make_response(body, status, headers)\<close> and \<^verbatim>\<open>jsonify(value)\<close>, which answers
  with status 200 unless the handler says otherwise.
\<close>

definition make_response :: "payload \<Rightarrow> nat \<Rightarrow> (string \<times> string) list \<Rightarrow> response" where
  "make_response b s hs = \<lparr>status_code = s, data = b, headers = hs\<rparr>"

definition jsonify :: "json \<Rightarrow> payload" where
  "jsonify v = Json v"

text \<open>
  \<^verbatim>\<open>request.get_json()\<close>: a body that does not decode ends the request with
  400 Bad Request.
\<close>

definition get_json :: "request \<Rightarrow> error + json" where
  "get_json req =
     (case json_body req of
        None \<Rightarrow> Inl (HTTPException HTTP_400_BAD_REQUEST ''Failed to decode JSON object'')
      | Some v \<Rightarrow> Inr v)"

section \<open>Dates\<close>

text \<open>
  A \<^verbatim>\<open>datetime.date\<close>. Python only builds dates of the proleptic Gregorian calendar
  with a year from 1 to 9999; \<open>valid_date\<close> says so.
\<close>

record date =
  year :: nat
  month :: nat
  day :: nat

definition is_leap :: "nat \<Rightarrow> bool" where
  "is_leap y = (y mod 4 = 0 \<and> (y mod 100 \<noteq> 0 \<or> y mod 400 = 0))"

definition days_in_month :: "nat \<Rightarrow> nat \<Rightarrow> nat" where
  "days_in_month y m =
     (if m = 2 then (if is_leap y then 29 else 28)
      else if m = 4 \<or> m = 6 \<or> m = 9 \<or> m = 11 then 30
      else 31)"

definition valid_date :: "date \<Rightarrow> bool" where
  "valid_date d =
     (1 \<le> year d \<and> year d \<le> 9999 \<and> 1 \<le> month d \<and> month d \<le> 12 \<and>
      1 \<le> day d \<and> day d \<le> days_in_month (year d) (month d))"

text \<open>Decimal digits, and \<^verbatim>\<open>"%0wd" % n\<close>: the decimal numeral of \<open>n\<close>, left-padded with zeros.\<close>

definition digit_char :: "nat \<Rightarrow> char" where
  "digit_char d = ''0123456789'' ! d"

function str_nat :: "nat \<Rightarrow> string" where
  "str_nat n = (if n < 10 then [digit_char n] else str_nat (n div 10) @ [digit_char (n mod 10)])"
  by pat_completeness auto
termination
  by (relation "measure (\<lambda>n. n)") auto

declare str_nat.simps [simp del]

definition zero_pad :: "nat \<Rightarrow> nat \<Rightarrow> string" where
  "zero_pad w n = replicate (w - length (str_nat n)) CHR ''0'' @ str_nat n"

text \<open>\<^verbatim>\<open>date.isoformat()\<close>: \<^verbatim>\<open>"%04d-%02d-%02d" % (year, month, day)\<close>.\<close>

definition isoformat :: "date \<Rightarrow> string" where
  "isoformat d = zero_pad 4 (year d) @ ''-'' @ zero_pad 2 (month d) @ ''-'' @ zero_pad 2 (day d)"

text \<open>The value of a decimal digit, and \<^verbatim>\<open>date.fromisoformat\<close> on \<^verbatim>\<open>YYYY-MM-DD\<close>.\<close>

definition digit_table :: "(char \<times> nat) list" where
  "digit_table = zip ''0123456789'' [0, 1, 2, 3, 4, 5, 6, 7, 8, 9]"

definition digit_val :: "char \<Rightarrow> nat option" where
  "digit_val c = map_of digit_table c"

fun digits_val :: "string \<Rightarrow> nat \<Rightarrow> nat option" where
  "digits_val [] acc = Some acc"
| "digits_val (c # cs) acc =
     (case digit_val c of None \<Rightarrow> None | Some v \<Rightarrow> digits_val cs (10 * acc + v))"

fun fromisoformat :: "string \<Rightarrow> date option" where
  "fromisoformat [y1, y2, y3, y4, s1, m1, m2, s2, d1, d2] =
     (if s1 = CHR ''-'' \<and> s2 = CHR ''-'' then
        (case (digits_val [y1, y2, y3, y4] 0, digits_val [m1, m2] 0, digits_val [d1, d2] 0) of
           (Some y, Some m, Some d) \<Rightarrow>
             (let r = \<lparr>year = y, month = m, day = d\<rparr> in if valid_date r then Some r else None)
         | _ \<Rightarrow> None)
      else None)"
| "fromisoformat _ = None"

text \<open>The shape \<^verbatim>\<open>YYYY-MM-DD\<close>: four digits, a dash, two digits, a dash, two digits.\<close>

definition is_digit :: "char \<Rightarrow> bool" where
  "is_digit c = (digit_val c \<noteq> None)"

fun iso_date_shape :: "string \<Rightarrow> bool" where
  "iso_date_shape [y1, y2, y3, y4, s1, m1, m2, s2, d1, d2] =
     (is_digit y1 \<and> is_digit y2 \<and> is_digit y3 \<and> is_digit y4 \<and> s1 = CHR ''-'' \<and>
      is_digit m1 \<and> is_digit m2 \<and> s2 = CHR ''-'' \<and> is_digit d1 \<and> is_digit d2)"
| "iso_date_shape _ = False"

section \<open>The Account entity and its table\<close>

text \<open>
  Modelled from the spec: \<^verbatim>\<open>service/models.py\<close>, which declares the \<^verbatim>\<open>Account\<close>
  class and its table, is not among the sources. The attributes are those of the spec's data
  model: \<open>id\<close> (unset until the storage assigns it), \<open>name\<close> and \<open>email\<close> (required),
  \<open>address\<close> and \<open>phone_number\<close> (optional) and \<open>date_joined\<close>.
\<close>

record account =
  id' :: "int option"
  name :: string
  email :: string
  address :: "string option"
  phone_number :: "string option"
  date_joined :: date

text \<open>
  Modelled from the spec: the table behind \<^verbatim>\<open>Account\<close>. \<open>rows\<close> are the stored
  accounts in insertion order; \<open>next_id\<close> is the storage's id generator.
\<close>

record db =
  rows :: "account list"
  next_id :: int

definition json_of_int :: "int option \<Rightarrow> json" where
  "json_of_int v = (case v of None \<Rightarrow> JNull | Some i \<Rightarrow> JInt i)"

definition json_of_str :: "string option \<Rightarrow> json" where
  "json_of_str v = (case v of None \<Rightarrow> JNull | Some s \<Rightarrow> JStr s)"

text \<open>
  Modelled from the spec: \<^verbatim>\<open>Account.serialize()\<close> "produces a key-value map containing
  id, name, email, address, phone_number, date_joined (date rendered as an ISO-8601 string)".
\<close>

definition account_serialize :: "account \<Rightarrow> json" where
  "account_serialize a =
     JObj [(''id'', json_of_int (id' a)),
           (''name'', JStr (name a)),
           (''email'', JStr (email a)),
           (''address'', json_of_str (address a)),
           (''phone_number'', json_of_str (phone_number a)),
           (''date_joined'', JStr (isoformat (date_joined a)))]"

text \<open>
  Modelled from the spec: \<^verbatim>\<open>Account.deserialize(payload)\<close> "fails with ValidationError if
  name or email is missing, or if payload is not a valid mapping type, or if a recognized field
  has the wrong semantic type. On success, all recognized fields are copied; unrecognized fields
  are ignored silently." \<open>date_joined\<close> is "defaulted to creation date if absent": \<open>today\<close> is
  the server's date. The entity's \<open>id\<close> is not taken from the payload.
\<close>

definition required_str :: "(string \<times> json) list \<Rightarrow> string \<Rightarrow> error + string" where
  "required_str fs k =
     (case map_of fs k of
        None \<Rightarrow> Inl (DataValidationError (''Invalid Account: missing '' @ k))
      | Some (JStr s) \<Rightarrow> Inr s
      | Some _ \<Rightarrow> Inl (DataValidationError (''Invalid Account: bad type for '' @ k)))"

definition optional_str :: "(string \<times> json) list \<Rightarrow> string \<Rightarrow> error + string option" where
  "optional_str fs k =
     (case map_of fs k of
        None \<Rightarrow> Inr None
      | Some JNull \<Rightarrow> Inr None
      | Some (JStr s) \<Rightarrow> Inr (Some s)
      | Some _ \<Rightarrow> Inl (DataValidationError (''Invalid Account: bad type for '' @ k)))"

definition optional_date :: "date \<Rightarrow> (string \<times> json) list \<Rightarrow> string \<Rightarrow> error + date" where
  "optional_date today fs k =
     (case map_of fs k of
        None \<Rightarrow> Inr today
      | Some JNull \<Rightarrow> Inr today
      | Some (JStr s) \<Rightarrow>
          (case fromisoformat s of
             None \<Rightarrow> Inl (DataValidationError (''Invalid Account: bad date for '' @ k))
           | Some d \<Rightarrow> Inr d)
      | Some _ \<Rightarrow> Inl (DataValidationError (''Invalid Account: bad type for '' @ k)))"

definition account_deserialize :: "date \<Rightarrow> json \<Rightarrow> error + account" where
  "account_deserialize today v =
     (case v of
        JObj fs \<Rightarrow>
          (case required_str fs ''name'' of Inl e \<Rightarrow> Inl e | Inr n \<Rightarrow>
          (case required_str fs ''email'' of Inl e \<Rightarrow> Inl e | Inr m \<Rightarrow>
          (case optional_str fs ''address'' of Inl e \<Rightarrow> Inl e | Inr a \<Rightarrow>
          (case optional_str fs ''phone_number'' of Inl e \<Rightarrow> Inl e | Inr p \<Rightarrow>
          (case optional_date today fs ''date_joined'' of Inl e \<Rightarrow> Inl e | Inr d \<Rightarrow>
             Inr \<lparr>id' = None, name = n, email = m, address = a, phone_number = p,
                  date_joined = d\<rparr>)))))
      | _ \<Rightarrow> Inl (DataValidationError ''Invalid Account: body of request is not a mapping''))"

text \<open>
  Modelled from the spec: \<^verbatim>\<open>Account.find(id)\<close> "returns the single Account matching id,
  or an explicit not-found sentinel", and \<^verbatim>\<open>Account.all()\<close> "returns every Account row
  as a sequence".
\<close>

definition account_find :: "db \<Rightarrow> int \<Rightarrow> account option" where
  "account_find d i = find (\<lambda>a. id' a = Some i) (rows d)"

definition account_all :: "db \<Rightarrow> account list" where
  "account_all d = rows d"

text \<open>
  Modelled from the spec: \<^verbatim>\<open>Account.create()\<close> "persists a new row; assigns the generated
  id back onto the entity"; \<^verbatim>\<open>Account.update()\<close> "persists changes to an existing row
  identified by id"; \<^verbatim>\<open>Account.delete()\<close> "removes the row identified by id", a no-op
  when there is none. Backend failures (the spec's StorageError) are outside the model.
\<close>

definition account_create :: "db \<Rightarrow> account \<Rightarrow> account \<times> db" where
  "account_create d a =
     (let a' = a\<lparr>id' := Some (next_id d)\<rparr>
      in (a', d\<lparr>rows := rows d @ [a'], next_id := next_id d + 1\<rparr>))"

definition account_update :: "db \<Rightarrow> account \<Rightarrow> db" where
  "account_update d a = d\<lparr>rows := map (\<lambda>r. if id' r = id' a then a else r) (rows d)\<rparr>"

definition account_delete :: "db \<Rightarrow> account \<Rightarrow> db" where
  "account_delete d a = d\<lparr>rows := filter (\<lambda>r. id' r \<noteq> id' a) (rows d)\<rparr>"

text \<open>
  Modelled from the spec: the error handlers of \<^verbatim>\<open>service/common/error_handlers.py\<close>,
  not among the sources. A validation error is answered 400 Bad Request; an aborted request
  is answered with the status it was aborted with.
\<close>

definition handle_error :: "error \<Rightarrow> response" where
  "handle_error e =
     (case e of
        HTTPException code description \<Rightarrow> make_response (Text description) code []
      | DataValidationError message \<Rightarrow> make_response (Text message) HTTP_400_BAD_REQUEST [])"

definition respond :: "error + response \<Rightarrow> response" where
  "respond r = (case r of Inl e \<Rightarrow> handle_error e | Inr resp \<Rightarrow> resp)"

section \<open>The request handlers of \<^verbatim>\<open>service/routes.py\<close>\<close>

text \<open>
  \<^verbatim>\<open>check_content_type(media_type)\<close>: the header must be there, non-empty and equal to
  the media type, or the request is aborted with 415.
\<close>

definition check_content_type :: "request \<Rightarrow> string \<Rightarrow> error + unit" where
  "check_content_type req media_type =
     (if (case content_type req of None \<Rightarrow> False | Some ct \<Rightarrow> ct \<noteq> [] \<and> ct = media_type)
      then Inr ()
      else Inl (HTTPException HTTP_415_UNSUPPORTED_MEDIA_TYPE
                  (''Content-Type must be '' @ media_type)))"

text \<open>
  \<^verbatim>\<open>create_accounts\<close> (POST /accounts). The \<^verbatim>\<open>Location\<close> header is the constant
  \<^verbatim>\<open>"/"\<close> of the source.
\<close>

definition create_accounts :: "date \<Rightarrow> db \<Rightarrow> request \<Rightarrow> (error + response) \<times> db" where
  "create_accounts today d req =
     (case check_content_type req ''application/json'' of Inl e \<Rightarrow> (Inl e, d) | Inr _ \<Rightarrow>
     (case get_json req of Inl e \<Rightarrow> (Inl e, d) | Inr body \<Rightarrow>
     (case account_deserialize today body of Inl e \<Rightarrow> (Inl e, d) | Inr account \<Rightarrow>
        (let (account', d') = account_create d account;
             message = account_serialize account';
             location_url = ''/''
         in (Inr (make_response (jsonify message) HTTP_201_CREATED
                    [(''Location'', location_url)]), d')))))"

text \<open>\<^verbatim>\<open>list_all_account\<close> (GET /accounts): one dictionary per row, then \<^verbatim>\<open>jsonify\<close>.\<close>

fun list_all_account_loop :: "account list \<Rightarrow> json list \<Rightarrow> json list" where
  "list_all_account_loop [] result = result"
| "list_all_account_loop (account # rest) result =
     list_all_account_loop rest
       (result @
        [JObj [(''id'', json_of_int (id' account)),
               (''name'', JStr (name account)),
               (''email'', JStr (email account)),
               (''address'', json_of_str (address account)),
               (''phone_number'', json_of_str (phone_number account)),
               (''date_joined'', JStr (isoformat (date_joined account)))]])"

definition list_all_account :: "db \<Rightarrow> response" where
  "list_all_account d =
     make_response (jsonify (JArr (list_all_account_loop (account_all d) []))) HTTP_200_OK []"

text \<open>\<^verbatim>\<open>read_an_account\<close> (GET /accounts/id).\<close>

definition read_an_account :: "db \<Rightarrow> int \<Rightarrow> response" where
  "read_an_account d i =
     (case account_find d i of
        Some found \<Rightarrow> make_response (jsonify (account_serialize found)) HTTP_200_OK []
      | None \<Rightarrow> make_response (Text ''Not Found'') HTTP_404_NOT_FOUND [])"

text \<open>
  \<^verbatim>\<open>update_an_account\<close> (PUT /accounts/id): the content type is checked first, then the
  row is looked up; the entity written back is a fresh one, read from the body, with its
  \<open>id\<close> set to the path's.
\<close>

definition update_an_account :: "date \<Rightarrow> db \<Rightarrow> int \<Rightarrow> request \<Rightarrow> (error + response) \<times> db" where
  "update_an_account today d i req =
     (case check_content_type req ''application/json'' of Inl e \<Rightarrow> (Inl e, d) | Inr _ \<Rightarrow>
     (case account_find d i of
        Some found \<Rightarrow>
          (case get_json req of Inl e \<Rightarrow> (Inl e, d) | Inr body \<Rightarrow>
          (case account_deserialize today body of Inl e \<Rightarrow> (Inl e, d) | Inr account \<Rightarrow>
             (let account' = account\<lparr>id' := Some i\<rparr>;
                  d' = account_update d account';
                  message = account_serialize account'
              in (Inr (make_response (jsonify message) HTTP_200_OK []), d'))))
      | None \<Rightarrow> (Inr (make_response (Text ''Not Found'') HTTP_404_NOT_FOUND []), d)))"

text \<open>\<^verbatim>\<open>delete_an_account\<close> (DELETE /accounts/id).\<close>

definition delete_an_account :: "db \<Rightarrow> int \<Rightarrow> response \<times> db" where
  "delete_an_account d i =
     (case account_find d i of
        Some found \<Rightarrow> (make_response (Text []) HTTP_204_NO_CONTENT [], account_delete d found)
      | None \<Rightarrow> (make_response (Text ''Not Found'') HTTP_404_NOT_FOUND [], d))"

text \<open>An account is stored under \<open>i\<close> when some row of the table has that id.\<close>

definition stored :: "db \<Rightarrow> int \<Rightarrow> bool" where
  "stored d i = (Some i \<in> set (map id' (rows d)))"

text \<open>
  The URL of an account: the route \<^verbatim>\<open>/accounts/<int:id>\<close> of \<^verbatim>\<open>read_an_account\<close>
  at the account's id.
\<close>

definition account_url :: "int \<Rightarrow> string" where
  "account_url i = ''/accounts/'' @ (if i < 0 then ''-'' else []) @ str_nat (nat \<bar>i\<bar>)"

section \<open>Vocabulary of the properties\<close>

text \<open>
  A request body has a member \<open>k\<close> when it is a JSON object with a binding for \<open>k\<close>.
\<close>

definition has_member :: "json option \<Rightarrow> string \<Rightarrow> bool" where
  "has_member b k = (case b of Some (JObj fs) \<Rightarrow> map_of fs k \<noteq> None | _ \<Rightarrow> False)"

text \<open>The keys of an entity object, and what it is for a JSON value to render an account.\<close>

definition entity_keys :: "string list" where
  "entity_keys = [''id'', ''name'', ''email'', ''address'', ''phone_number'', ''date_joined'']"

definition object_of :: "account \<Rightarrow> json \<Rightarrow> bool" where
  "object_of a v =
     (case v of
        JObj fs \<Rightarrow>
          distinct (map fst fs) \<and> set (map fst fs) = set entity_keys \<and>
          map_of fs ''id'' = Some (json_of_int (id' a)) \<and>
          map_of fs ''name'' = Some (JStr (name a)) \<and>
          map_of fs ''email'' = Some (JStr (email a)) \<and>
          map_of fs ''address'' = Some (json_of_str (address a)) \<and>
          map_of fs ''phone_number'' = Some (json_of_str (phone_number a)) \<and>
          (case map_of fs ''date_joined'' of
             Some (JStr s) \<Rightarrow> iso_date_shape s \<and> s = isoformat (date_joined a)
           | _ \<Rightarrow> False)
      | _ \<Rightarrow> False)"

subsection \<open>Example data\<close>

definition example_today :: date where
  "example_today = \<lparr>year = 2024, month = 3, day = 9\<rparr>"

definition alice :: account where
  "alice = \<lparr>id' = Some 1, name = ''Alice'', email = ''a@example.com'',
             address = Some ''1 Main St'', phone_number = None,
             date_joined = \<lparr>year = 2023, month = 11, day = 30\<rparr>\<rparr>"

definition bob :: account where
  "bob = \<lparr>id' = Some 2, name = ''Bob'', email = ''b@example.com'',
           address = None, phone_number = Some ''555-0100'',
           date_joined = \<lparr>year = 987, month = 2, day = 5\<rparr>\<rparr>"

definition example_db :: db where
  "example_db = \<lparr>rows = [alice, bob], next_id = 3\<rparr>"

definition empty_db :: db where
  "empty_db = \<lparr>rows = [], next_id = 1\<rparr>"

definition full_body :: json where
  "full_body =
     JObj [(''id'', JInt 999), (''name'', JStr ''Carol''), (''email'', JStr ''c@example.com''),
           (''address'', JStr ''2 Side St''), (''phone_number'', JStr ''555-0199'')]"

definition json_request :: "json \<Rightarrow> request" where
  "json_request v = \<lparr>content_type = Some ''application/json'', json_body = Some v\<rparr>"

definition html_request :: "json \<Rightarrow> request" where
  "html_request v = \<lparr>content_type = Some ''text/html'', json_body = Some v\<rparr>"

definition alice_body :: json where
  "alice_body = JObj [(''name'', JStr ''Alice''), (''email'', JStr ''a@example.com'')]"

definition nameless_body :: json where
  "nameless_body = JObj [(''email'', JStr ''a@example.com'')]"

lemmas example_defs =
  example_today_def alice_def bob_def example_db_def empty_db_def full_body_def
  json_request_def html_request_def alice_body_def nameless_body_def

section \<open>Auxiliary facts\<close>

lemma check_content_type_ok:
  "content_type req = Some ''application/json'' \<Longrightarrow>
   check_content_type req ''application/json'' = Inr ()"
  by (simp add: check_content_type_def)

lemma check_content_type_bad:
  "content_type req \<noteq> Some ''application/json'' \<Longrightarrow>
   check_content_type req ''application/json'' =
     Inl (HTTPException HTTP_415_UNSUPPORTED_MEDIA_TYPE ''Content-Type must be application/json'')"
  by (auto simp: check_content_type_def split: option.splits)

lemma respond_abort: "status_code (respond (Inl (HTTPException c m))) = c"
  by (simp add: respond_def handle_error_def make_response_def)

lemma respond_invalid: "status_code (respond (Inl (DataValidationError m))) = 400"
  by (simp add: respond_def handle_error_def make_response_def status_defs)

lemma account_find_None: "account_find d i = None \<longleftrightarrow> \<not> stored d i"
  by (auto simp: account_find_def stored_def find_None_iff image_iff)

lemma account_find_Some:
  "account_find d i = Some a \<Longrightarrow> id' a = Some i \<and> a \<in> set (rows d)"
  by (auto simp: account_find_def find_Some_iff)

lemma stored_find: "stored d i \<Longrightarrow> \<exists>a. account_find d i = Some a"
  using account_find_None [of d i] by (cases "account_find d i") auto

lemma stored_delete: "id' a = Some i \<Longrightarrow> \<not> stored (account_delete d a) i"
  by (auto simp: stored_def account_delete_def)

lemma find_filter_other:
  "j \<noteq> i \<Longrightarrow>
   find (\<lambda>a. id' a = Some j) (filter (\<lambda>a. id' a \<noteq> Some i) xs) =
   find (\<lambda>a. id' a = Some j) xs"
  by (induction xs) auto

lemma stored_example: "stored example_db 1 \<and> stored example_db 2 \<and> \<not> stored example_db 7"
  by (simp add: stored_def example_defs)

section \<open>Properties of the handlers\<close>

text \<open>
  C2. A POST /accounts or PUT /accounts/id request whose Content-Type header is missing or is
  anything but \<^verbatim>\<open>application/json\<close> is answered 415, whatever its body.
\<close>

theorem unsupported_media_type:
  assumes "content_type req \<noteq> Some ''application/json''"
  shows "status_code (respond (fst (create_accounts today d req))) = 415 \<and>
         status_code (respond (fst (update_an_account today d i req))) = 415"
  using check_content_type_bad [OF assms]
  by (simp add: create_accounts_def update_an_account_def respond_abort status_defs)

theorem unsupported_media_type_witness:
  "content_type (html_request full_body) \<noteq> Some ''application/json'' \<and>
   status_code (respond (fst (create_accounts example_today example_db
     (html_request full_body)))) = 415 \<and>
   status_code (respond (fst (update_an_account example_today example_db 1
     (html_request full_body)))) = 415"
proof -
  have h: "content_type (html_request full_body) \<noteq> Some ''application/json''"
    by (simp add: html_request_def)
  from unsupported_media_type [OF h, of example_today example_db 1] h
  show ?thesis by simp
qed

text \<open>
  C3. GET /accounts/id for an id with no account stored under it is answered 404 with the
  plain-text body \<^verbatim>\<open>Not Found\<close>.
\<close>

theorem read_not_found:
  assumes "\<not> stored d i"
  shows "status_code (read_an_account d i) = 404 \<and>
         data (read_an_account d i) = Text ''Not Found''"
  using assms account_find_None [of d i]
  by (simp add: read_an_account_def make_response_def status_defs)

theorem read_not_found_witness:
  "\<not> stored example_db 7 \<and> status_code (read_an_account example_db 7) = 404 \<and>
   data (read_an_account example_db 7) = Text ''Not Found''"
proof -
  have h: "\<not> stored example_db 7" by (simp add: stored_example)
  from read_not_found [OF h] h show ?thesis by simp
qed

text \<open>
  C4. DELETE /accounts/id for an id with an account stored under it is answered 204 with an
  empty body and removes the row; a second DELETE of the same id is answered 404 and changes
  nothing.
\<close>

theorem delete_then_not_found:
  assumes "stored d i"
  shows "status_code (fst (delete_an_account d i)) = 204 \<and>
         data (fst (delete_an_account d i)) = Text [] \<and>
         \<not> stored (snd (delete_an_account d i)) i \<and>
         status_code (fst (delete_an_account (snd (delete_an_account d i)) i)) = 404 \<and>
         snd (delete_an_account (snd (delete_an_account d i)) i) = snd (delete_an_account d i)"
proof -
  from stored_find [OF assms] obtain a where a: "account_find d i = Some a" by blast
  then have ida: "id' a = Some i" by (simp add: account_find_Some)
  have first: "delete_an_account d i =
      (make_response (Text []) HTTP_204_NO_CONTENT [], account_delete d a)"
    using a by (simp add: delete_an_account_def)
  have gone: "\<not> stored (account_delete d a) i" using ida by (rule stored_delete)
  then have none: "account_find (account_delete d a) i = None"
    by (simp add: account_find_None)
  then have second: "delete_an_account (account_delete d a) i =
      (make_response (Text ''Not Found'') HTTP_404_NOT_FOUND [], account_delete d a)"
    by (simp add: delete_an_account_def)
  show ?thesis using gone by (simp add: first second make_response_def status_defs)
qed

theorem delete_then_not_found_witness:
  "stored example_db 1 \<and>
   status_code (fst (delete_an_account example_db 1)) = 204 \<and>
   data (fst (delete_an_account example_db 1)) = Text [] \<and>
   \<not> stored (snd (delete_an_account example_db 1)) 1 \<and>
   status_code (fst (delete_an_account (snd (delete_an_account example_db 1)) 1)) = 404"
proof -
  have h: "stored example_db 1" by (simp add: stored_example)
  from delete_then_not_found [OF h] h show ?thesis by simp
qed

text \<open>
  C5. PUT /accounts/id with Content-Type \<^verbatim>\<open>application/json\<close>, for an id with no account
  stored under it, is answered 404 and leaves the table as it was.
\<close>

theorem update_not_found:
  assumes "\<not> stored d i" and "content_type req = Some ''application/json''"
  shows "status_code (respond (fst (update_an_account today d i req))) = 404 \<and>
         data (respond (fst (update_an_account today d i req))) = Text ''Not Found'' \<and>
         snd (update_an_account today d i req) = d"
  using assms(1) account_find_None [of d i] check_content_type_ok [OF assms(2)]
  by (simp add: update_an_account_def respond_def make_response_def status_defs)

theorem update_not_found_witness:
  "\<not> stored example_db 7 \<and>
   content_type (json_request full_body) = Some ''application/json'' \<and>
   status_code (respond (fst (update_an_account example_today example_db 7
     (json_request full_body)))) = 404 \<and>
   snd (update_an_account example_today example_db 7 (json_request full_body)) = example_db"
proof -
  have h1: "\<not> stored example_db 7" by (simp add: stored_example)
  have h2: "content_type (json_request full_body) = Some ''application/json''"
    by (simp add: json_request_def)
  from update_not_found [OF h1 h2, of example_today] h1 h2 show ?thesis by simp
qed

text \<open>
  C9. In the update handler the content type is checked before the row is looked up: a PUT
  with a missing or wrong Content-Type is answered 415, not 404, also when no account is
  stored under the id; the table is left as it was.
\<close>

theorem update_415_before_404:
  assumes "\<not> stored d i" and "content_type req \<noteq> Some ''application/json''"
  shows "status_code (respond (fst (update_an_account today d i req))) = 415 \<and>
         status_code (respond (fst (update_an_account today d i req))) \<noteq> 404 \<and>
         snd (update_an_account today d i req) = d"
  using check_content_type_bad [OF assms(2)]
  by (simp add: update_an_account_def respond_abort status_defs)

theorem update_415_before_404_witness:
  "\<not> stored example_db 7 \<and>
   content_type (html_request full_body) \<noteq> Some ''application/json'' \<and>
   status_code (respond (fst (update_an_account example_today example_db 7
     (html_request full_body)))) = 415 \<and>
   snd (update_an_account example_today example_db 7 (html_request full_body)) = example_db"
proof -
  have h1: "\<not> stored example_db 7" by (simp add: stored_example)
  have h2: "content_type (html_request full_body) \<noteq> Some ''application/json''"
    by (simp add: html_request_def)
  from update_415_before_404 [OF h1 h2, of example_today] h1 h2 show ?thesis by simp
qed

text \<open>
  C10. DELETE /accounts/id for a stored id removes the rows with that id and no other: the
  rows left are the rows with another id, each as it was and in the same order, and every
  other id is found as before.
\<close>

theorem delete_frame:
  assumes "stored d i"
  shows "rows (snd (delete_an_account d i)) = filter (\<lambda>a. id' a \<noteq> Some i) (rows d) \<and>
         (\<forall>a \<in> set (rows d). id' a \<noteq> Some i \<longrightarrow>
            a \<in> set (rows (snd (delete_an_account d i)))) \<and>
         (\<forall>j. j \<noteq> i \<longrightarrow>
            account_find (snd (delete_an_account d i)) j = account_find d j)"
proof -
  from stored_find [OF assms] obtain a where a: "account_find d i = Some a" by blast
  then have ida: "id' a = Some i" by (simp add: account_find_Some)
  have r: "rows (snd (delete_an_account d i)) = filter (\<lambda>a. id' a \<noteq> Some i) (rows d)"
    using a ida by (simp add: delete_an_account_def account_delete_def)
  have f: "account_find (snd (delete_an_account d i)) j = account_find d j" if "j \<noteq> i" for j
    unfolding account_find_def r using that by (rule find_filter_other)
  show ?thesis using r f by auto
qed

theorem delete_frame_witness:
  "stored example_db 1 \<and>
   rows (snd (delete_an_account example_db 1)) = [bob] \<and>
   account_find (snd (delete_an_account example_db 1)) 2 = Some bob"
proof -
  have h: "stored example_db 1" by (simp add: stored_example)
  have b: "account_find example_db 2 = Some bob"
    by (simp add: account_find_def example_defs)
  from delete_frame [OF h] h b show ?thesis
    by (simp add: example_defs)
qed

section \<open>Dates as text\<close>

lemma digit_cases:
  "k < 10 \<Longrightarrow>
   k = 0 \<or> k = 1 \<or> k = 2 \<or> k = 3 \<or> k = 4 \<or> k = 5 \<or> k = 6 \<or> k = 7 \<or> k = 8 \<or> k = (9::nat)"
  by arith

lemma digit_val_digit_char:
  assumes "k < 10"
  shows "digit_val (digit_char k) = Some k"
  using digit_cases [OF assms]
  by (elim disjE) (simp_all add: digit_val_def digit_table_def digit_char_def)

lemma is_digit_digit_char: "k < 10 \<Longrightarrow> is_digit (digit_char k)"
  by (simp add: is_digit_def digit_val_digit_char)

lemma replicate_zeros:
  "replicate 2 c = [c, c]" "replicate 3 c = [c, c, c]"
  by (simp_all add: numeral_2_eq_2 numeral_3_eq_3)

lemma str_nat_1: "n < 10 \<Longrightarrow> str_nat n = [digit_char n]"
  by (simp add: str_nat.simps)

lemma str_nat_step: "10 \<le> n \<Longrightarrow> str_nat n = str_nat (n div 10) @ [digit_char (n mod 10)]"
  by (subst str_nat.simps) simp

lemma str_nat_2:
  "10 \<le> n \<Longrightarrow> n < 100 \<Longrightarrow> str_nat n = [digit_char (n div 10), digit_char (n mod 10)]"
  by (simp add: str_nat_step str_nat_1)

lemma str_nat_3:
  "100 \<le> n \<Longrightarrow> n < 1000 \<Longrightarrow>
   str_nat n = [digit_char (n div 100), digit_char (n div 10 mod 10), digit_char (n mod 10)]"
  by (simp add: str_nat_step [of n] str_nat_2 div_mult2_eq [symmetric])

lemma str_nat_4:
  "1000 \<le> n \<Longrightarrow> n < 10000 \<Longrightarrow>
   str_nat n = [digit_char (n div 1000), digit_char (n div 100 mod 10),
                digit_char (n div 10 mod 10), digit_char (n mod 10)]"
  by (simp add: str_nat_step [of n] str_nat_3 div_mult2_eq [symmetric])

lemma zero_pad_2:
  assumes "n < 100"
  shows "zero_pad 2 n = [digit_char (n div 10), digit_char (n mod 10)]"
proof (cases "n < 10")
  case True
  then show ?thesis by (simp add: zero_pad_def str_nat_1 digit_char_def)
next
  case False
  with assms show ?thesis by (simp add: zero_pad_def str_nat_2)
qed

lemma zero_pad_4:
  assumes n: "n < 10000"
  shows "zero_pad 4 n = [digit_char (n div 1000), digit_char (n div 100 mod 10),
                         digit_char (n div 10 mod 10), digit_char (n mod 10)]"
proof -
  consider "n < 10" | "10 \<le> n" "n < 100" | "100 \<le> n" "n < 1000" | "1000 \<le> n"
    by linarith
  then show ?thesis
  proof cases
    case 1
    then show ?thesis by (simp add: zero_pad_def str_nat_1 digit_char_def replicate_zeros)
  next
    case 2
    then show ?thesis by (simp add: zero_pad_def str_nat_2 digit_char_def replicate_zeros)
  next
    case 3
    then show ?thesis by (simp add: zero_pad_def str_nat_3 digit_char_def)
  next
    case 4
    with n show ?thesis by (simp add: zero_pad_def str_nat_4)
  qed
qed

lemma valid_date_bounds: "valid_date d \<Longrightarrow> year d < 10000 \<and> month d < 100 \<and> day d < 100"
  by (auto simp: valid_date_def days_in_month_def split: if_splits)

lemma isoformat_digits:
  assumes "valid_date d"
  shows "isoformat d =
    [digit_char (year d div 1000), digit_char (year d div 100 mod 10),
     digit_char (year d div 10 mod 10), digit_char (year d mod 10), CHR ''-'',
     digit_char (month d div 10), digit_char (month d mod 10), CHR ''-'',
     digit_char (day d div 10), digit_char (day d mod 10)]"
  using valid_date_bounds [OF assms] by (simp add: isoformat_def zero_pad_2 zero_pad_4)

lemma iso_date_shape_isoformat: "valid_date d \<Longrightarrow> iso_date_shape (isoformat d)"
  using valid_date_bounds [of d]
  by (simp add: isoformat_digits is_digit_digit_char div_less_iff_less_mult)

lemma isoformat_example_today: "isoformat example_today = ''2024-03-09''"
  by (simp add: isoformat_digits valid_date_def days_in_month_def is_leap_def digit_char_def
      example_today_def)

section \<open>Listing, creating and updating\<close>

lemma list_all_account_loop_eq:
  "list_all_account_loop xs result = result @ map account_serialize xs"
  by (induction xs arbitrary: result) (simp_all add: account_serialize_def)

lemma object_of_serialize: "valid_date (date_joined a) \<Longrightarrow> object_of a (account_serialize a)"
  by (simp add: object_of_def account_serialize_def entity_keys_def iso_date_shape_isoformat)

lemma deserialize_missing:
  assumes "\<not> has_member (Some v) ''name'' \<or> \<not> has_member (Some v) ''email''"
  shows "\<exists>m. account_deserialize today v = Inl (DataValidationError m)"
proof (cases v)
  case (JObj fs)
  show ?thesis
  proof (cases "map_of fs ''name''")
    case None
    then show ?thesis by (simp add: JObj account_deserialize_def required_str_def)
  next
    case (Some x)
    with assms JObj have e: "map_of fs ''email'' = None" by (simp add: has_member_def)
    then have "\<exists>m. required_str fs ''email'' = Inl (DataValidationError m)"
      by (simp add: required_str_def)
    moreover have "(\<exists>m. required_str fs ''name'' = Inl (DataValidationError m)) \<or>
        (\<exists>n. required_str fs ''name'' = Inr n)"
      by (cases x) (simp_all add: required_str_def Some)
    ultimately show ?thesis by (auto simp: JObj account_deserialize_def)
  qed
qed (simp_all add: account_deserialize_def)

lemma deserialize_full:
  assumes "map_of fs ''name'' = Some (JStr n)"
    and "map_of fs ''email'' = Some (JStr e)"
    and "map_of fs ''address'' = Some (JStr a)"
    and "map_of fs ''phone_number'' = Some (JStr p)"
    and "optional_date today fs ''date_joined'' = Inr dj"
  shows "account_deserialize today (JObj fs) =
     Inr \<lparr>id' = None, name = n, email = e, address = Some a, phone_number = Some p,
          date_joined = dj\<rparr>"
  using assms by (simp add: account_deserialize_def required_str_def optional_str_def)

text \<open>
  Every create request that passes the content-type check and deserializes is answered
  with status 201, the serialized new row, and the \<^verbatim>\<open>Location\<close> header \<^verbatim>\<open>/\<close>.
\<close>

lemma create_accounts_created:
  assumes "content_type req = Some ''application/json''"
    and "json_body req = Some v"
    and "account_deserialize today v = Inr a"
  shows "create_accounts today d req =
     (Inr (make_response (Json (account_serialize (a\<lparr>id' := Some (next_id d)\<rparr>))) 201
             [(''Location'', ''/'')]),
      d\<lparr>rows := rows d @ [a\<lparr>id' := Some (next_id d)\<rparr>], next_id := next_id d + 1\<rparr>)"
  using assms check_content_type_ok [OF assms(1)]
  by (simp add: create_accounts_def get_json_def account_create_def jsonify_def status_defs
      Let_def)

text \<open>
  C1. On the empty table, the create request with body
  \<^verbatim>\<open>{"name": "Alice", "email": "a@example.com"}\<close> is answered 201 with the serialized new
  account, whose id is 1; but its \<^verbatim>\<open>Location\<close> header is \<^verbatim>\<open>/\<close>, not the URL
  \<^verbatim>\<open>/accounts/1\<close> of the account.
\<close>

theorem create_location_is_root:
  "status_code (respond (fst (create_accounts example_today empty_db (json_request alice_body))))
     = 201 \<and>
   data (respond (fst (create_accounts example_today empty_db (json_request alice_body)))) =
     Json (JObj [(''id'', JInt 1), (''name'', JStr ''Alice''), (''email'', JStr ''a@example.com''),
                 (''address'', JNull), (''phone_number'', JNull),
                 (''date_joined'', JStr ''2024-03-09'')]) \<and>
   map_of (headers (respond (fst (create_accounts example_today empty_db
     (json_request alice_body))))) ''Location'' = Some ''/'' \<and>
   account_url 1 = ''/accounts/1'' \<and>
   map_of (headers (respond (fst (create_accounts example_today empty_db
     (json_request alice_body))))) ''Location'' \<noteq> Some (account_url 1)"
proof -
  have de: "account_deserialize example_today alice_body =
      Inr \<lparr>id' = None, name = ''Alice'', email = ''a@example.com'', address = None,
           phone_number = None, date_joined = example_today\<rparr>"
    by (simp add: account_deserialize_def required_str_def optional_str_def optional_date_def
        alice_body_def)
  have url: "account_url 1 = ''/accounts/1''"
    by (simp add: account_url_def str_nat_1 digit_char_def)
  have "create_accounts example_today empty_db (json_request alice_body) =
     (Inr (make_response (Json (account_serialize
        (\<lparr>id' = None, name = ''Alice'', email = ''a@example.com'', address = None,
           phone_number = None, date_joined = example_today\<rparr>\<lparr>id' := Some 1\<rparr>))) 201
             [(''Location'', ''/'')]),
      empty_db\<lparr>rows := rows empty_db @
          [\<lparr>id' = None, name = ''Alice'', email = ''a@example.com'', address = None,
            phone_number = None, date_joined = example_today\<rparr>\<lparr>id' := Some 1\<rparr>],
        next_id := next_id empty_db + 1\<rparr>)"
    using create_accounts_created [of "json_request alice_body" alice_body example_today _ empty_db]
      de by (simp add: json_request_def empty_db_def)
  then show ?thesis
    by (simp add: url respond_def make_response_def account_serialize_def json_of_int_def
        json_of_str_def isoformat_example_today)
qed

text \<open>
  C6. PUT /accounts/id, for an id with an account stored under it, with a body that gives
  name, email, address and phone_number as strings (and no date, or a well-formed one), is
  answered 200 with an entity whose name, email, address and phone_number are the body's and
  whose id is the path's, whatever id the body may carry.
\<close>

theorem update_returns_payload:
  assumes "stored d i"
    and "content_type req = Some ''application/json''"
    and "json_body req = Some (JObj fs)"
    and "map_of fs ''name'' = Some (JStr n)"
    and "map_of fs ''email'' = Some (JStr e)"
    and "map_of fs ''address'' = Some (JStr a)"
    and "map_of fs ''phone_number'' = Some (JStr p)"
    and "optional_date today fs ''date_joined'' = Inr dj"
  shows "respond (fst (update_an_account today d i req)) =
     make_response
       (Json (JObj [(''id'', JInt i), (''name'', JStr n), (''email'', JStr e),
                    (''address'', JStr a), (''phone_number'', JStr p),
                    (''date_joined'', JStr (isoformat dj))])) 200 []"
proof -
  from stored_find [OF assms(1)] obtain found where f: "account_find d i = Some found"
    by blast
  note de = deserialize_full [OF assms(4-8)]
  show ?thesis
    using f de check_content_type_ok [OF assms(2)] assms(3)
    by (simp add: update_an_account_def get_json_def respond_def jsonify_def
        account_serialize_def json_of_int_def json_of_str_def status_defs)
qed

theorem update_returns_payload_witness:
  "stored example_db 1 \<and>
   respond (fst (update_an_account example_today example_db 1 (json_request full_body))) =
     make_response
       (Json (JObj [(''id'', JInt 1), (''name'', JStr ''Carol''),
                    (''email'', JStr ''c@example.com''), (''address'', JStr ''2 Side St''),
                    (''phone_number'', JStr ''555-0199''),
                    (''date_joined'', JStr ''2024-03-09'')])) 200 []"
proof -
  have h: "stored example_db 1" by (simp add: stored_example)
  have "respond (fst (update_an_account example_today example_db 1 (json_request full_body))) =
     make_response
       (Json (JObj [(''id'', JInt 1), (''name'', JStr ''Carol''),
                    (''email'', JStr ''c@example.com''), (''address'', JStr ''2 Side St''),
                    (''phone_number'', JStr ''555-0199''),
                    (''date_joined'', JStr (isoformat example_today))])) 200 []"
    by (rule update_returns_payload [OF h, where fs =
         "[(''id'', JInt 999), (''name'', JStr ''Carol''), (''email'', JStr ''c@example.com''),
           (''address'', JStr ''2 Side St''), (''phone_number'', JStr ''555-0199'')]"])
       (simp_all add: json_request_def full_body_def optional_date_def)
  with h show ?thesis by (simp add: isoformat_example_today)
qed

text \<open>
  C7. POST /accounts with Content-Type \<^verbatim>\<open>application/json\<close> and a body that has no
  \<open>name\<close> or no \<open>email\<close> is answered 400; the table is unchanged, and so is what
  GET /accounts lists afterwards.
\<close>

theorem create_missing_field:
  assumes "content_type req = Some ''application/json''"
    and "\<not> has_member (json_body req) ''name'' \<or> \<not> has_member (json_body req) ''email''"
  shows "status_code (respond (fst (create_accounts today d req))) = 400 \<and>
         snd (create_accounts today d req) = d \<and>
         list_all_account (snd (create_accounts today d req)) = list_all_account d"
proof (cases "json_body req")
  case None
  then show ?thesis
    using check_content_type_ok [OF assms(1)]
    by (simp add: create_accounts_def get_json_def respond_abort status_defs)
next
  case (Some v)
  with assms(2) deserialize_missing [of v today]
  obtain m where "account_deserialize today v = Inl (DataValidationError m)" by auto
  then show ?thesis
    using Some check_content_type_ok [OF assms(1)]
    by (simp add: create_accounts_def get_json_def respond_invalid)
qed

theorem create_missing_field_witness:
  "content_type (json_request nameless_body) = Some ''application/json'' \<and>
   \<not> has_member (json_body (json_request nameless_body)) ''name'' \<and>
   status_code (respond (fst (create_accounts example_today example_db
     (json_request nameless_body)))) = 400 \<and>
   snd (create_accounts example_today example_db (json_request nameless_body)) = example_db"
proof -
  have h1: "content_type (json_request nameless_body) = Some ''application/json''"
    by (simp add: json_request_def)
  have h2: "\<not> has_member (json_body (json_request nameless_body)) ''name''"
    by (simp add: json_request_def nameless_body_def has_member_def)
  from create_missing_field [OF h1 disjI1 [OF h2], of example_today example_db] h1 h2
  show ?thesis by simp
qed

text \<open>
  C8. GET /accounts is answered 200 with a JSON array holding one object per stored account,
  in order; each object has exactly the keys id, name, email, address, phone_number and
  date_joined, with the account's values, and its date_joined is the account's date as a
  \<^verbatim>\<open>YYYY-MM-DD\<close> string. The dates of the table are dates Python can build.
\<close>

theorem list_all_account_objects:
  assumes "\<forall>a \<in> set (account_all d). valid_date (date_joined a)"
  shows "status_code (list_all_account d) = 200 \<and>
         (\<exists>objs. data (list_all_account d) = Json (JArr objs) \<and>
                 list_all2 object_of (account_all d) objs)"
proof -
  have "list_all2 object_of (account_all d) (map account_serialize (account_all d))"
    using assms by (simp add: list_all2_map2 list_all2_same object_of_serialize)
  then show ?thesis
    by (simp add: list_all_account_def list_all_account_loop_eq make_response_def jsonify_def
        status_defs)
qed

theorem list_all_account_objects_witness:
  "valid_date (date_joined alice) \<and> valid_date (date_joined bob) \<and>
   status_code (list_all_account example_db) = 200 \<and>
   (\<exists>objs. data (list_all_account example_db) = Json (JArr objs) \<and>
           list_all2 object_of [alice, bob] objs) \<and>
   status_code (list_all_account empty_db) = 200 \<and>
   data (list_all_account empty_db) = Json (JArr [])"
proof -
  have va: "valid_date (date_joined alice)"
    by (simp add: alice_def valid_date_def days_in_month_def)
  have vb: "valid_date (date_joined bob)"
    by (simp add: bob_def valid_date_def days_in_month_def is_leap_def)
  have h: "\<forall>a \<in> set (account_all example_db). valid_date (date_joined a)"
    using va vb by (simp add: account_all_def example_db_def)
  have e: "\<forall>a \<in> set (account_all empty_db). valid_date (date_joined a)"
    by (simp add: account_all_def empty_db_def)
  have rows: "account_all example_db = [alice, bob]" "account_all empty_db = []"
    by (simp_all add: account_all_def example_db_def empty_db_def)
  from list_all_account_objects [OF h] list_all_account_objects [OF e] va vb
  show ?thesis by (simp add: rows)
qed

end
